theory Spec2Isabelle
  imports Main "HOL-Library.Word" "HOL-Library.Char_ord"
begin

unbundle bit_operations_syntax

section \<open>Collaborators of column.go\<close>

text \<open>
  column.go writes into a \<^verbatim>\<open>*bytes.Buffer\<close>, asks a \<^verbatim>\<open>Dialect\<close> for its escape
  character, matches names against a compiled regular expression, calls
  \<^verbatim>\<open>Expression.SerializeSql\<close> and \<^verbatim>\<open>Table.getColumn\<close>. None of these is defined in
  column.go; each is modelled here by what column.go uses of it. The buffer, the dialect
  and the table that a method is given are taken to be there: a call with a nil buffer,
  dialect or table pointer is not modelled.
\<close>

subsection \<open>Errors and panics\<close>

text \<open>
  A Go \<^verbatim>\<open>error\<close> made by \<^verbatim>\<open>errors.New\<close> or \<^verbatim>\<open>fmt.Errorf\<close> is its message; the errors
  that come back from a table or from an expression are values of the same type. A nil
  error is \<open>None\<close>.
\<close>

datatype error = errorString string

text \<open>The value handed to \<^verbatim>\<open>panic\<close>.\<close>

datatype panic = Panic string

subsection \<open>bytes.Buffer\<close>

text \<open>
  The buffer is the byte string written so far. Every write appends; the writes used in
  column.go never fail. A rune is an \<^verbatim>\<open>int32\<close>; \<^verbatim>\<open>WriteRune\<close> appends its UTF-8 encoding,
  and the encoding of a rune that is no Unicode scalar value (above U+10FFFF, a surrogate,
  or negative, which is large when read unsigned) is that of U+FFFD.
\<close>

type_synonym Buffer = string
type_synonym rune = "32 word"

definition byte :: "rune \<Rightarrow> char" where
  "byte r = char_of (unat r)"

definition EncodeRune :: "rune \<Rightarrow> string" where
  "EncodeRune r =
     (if r \<le> 0x7F then [byte r]
      else if r \<le> 0x7FF then
        [byte (0xC0 OR drop_bit 6 r), byte (0x80 OR (r AND 0x3F))]
      else
        (let r' = (if 0x10FFFF < r \<or> (0xD800 \<le> r \<and> r \<le> 0xDFFF) then 0xFFFD else r)
         in if r' \<le> 0xFFFF then
              [byte (0xE0 OR drop_bit 12 r'), byte (0x80 OR (drop_bit 6 r' AND 0x3F)),
               byte (0x80 OR (r' AND 0x3F))]
            else
              [byte (0xF0 OR drop_bit 18 r'), byte (0x80 OR (drop_bit 12 r' AND 0x3F)),
               byte (0x80 OR (drop_bit 6 r' AND 0x3F)), byte (0x80 OR (r' AND 0x3F))]))"

definition WriteByte :: "Buffer \<Rightarrow> char \<Rightarrow> Buffer" where
  "WriteByte out c = out @ [c]"

definition WriteString :: "Buffer \<Rightarrow> string \<Rightarrow> Buffer" where
  "WriteString out s = out @ s"

definition WriteRune :: "Buffer \<Rightarrow> rune \<Rightarrow> Buffer" where
  "WriteRune out r = out @ EncodeRune r"

subsection \<open>Dialect\<close>

text \<open>The interface is used for one method, \<^verbatim>\<open>EscapeCharacter() rune\<close>.\<close>

record Dialect =
  EscapeCharacter :: rune

text \<open>The bytes that one \<^verbatim>\<open>out.WriteRune(d.EscapeCharacter())\<close> appends.\<close>

definition esc :: "Dialect \<Rightarrow> string" where
  "esc d = EncodeRune (EscapeCharacter d)"

subsection \<open>regexp\<close>

text \<open>
  The operators that the pattern of column.go parses to, with their meaning in Go's
  regexp package: \<^verbatim>\<open>^\<close> and \<^verbatim>\<open>$\<close> (no flags) hold at the beginning and at the end of
  the text only, a character class is a list of inclusive ranges. \<open>matchAt re s i\<close> lists
  the positions where a match of \<open>re\<close> that begins at position \<open>i\<close> of \<open>s\<close> can end.
  An iteration of a star that consumes nothing adds no end position, so the star is
  unrolled at most once per remaining character. \<^verbatim>\<open>MatchString\<close> reports whether a match
  begins at some position of the text.

  Go matches runes, the model bytes. For classes of ASCII ranges the two agree: each
  byte of a multi-byte or invalid sequence is at least 0x80, and so is the rune it is
  decoded to.
\<close>

datatype Regexp =
    OpBeginText
  | OpEndText
  | OpCharClass "(char \<times> char) list"
  | OpConcat Regexp Regexp
  | OpStar Regexp

definition inClass :: "(char \<times> char) list \<Rightarrow> char \<Rightarrow> bool" where
  "inClass ranges c = list_ex (\<lambda>(lo, hi). lo \<le> c \<and> c \<le> hi) ranges"

fun star :: "nat \<Rightarrow> (nat \<Rightarrow> nat list) \<Rightarrow> nat \<Rightarrow> nat list" where
  "star 0 f i = [i]"
| "star (Suc n) f i = i # concat (map (star n f) (filter (\<lambda>j. i < j) (f i)))"

primrec matchAt :: "Regexp \<Rightarrow> string \<Rightarrow> nat \<Rightarrow> nat list" where
  "matchAt OpBeginText s i = (if i = 0 then [i] else [])"
| "matchAt OpEndText s i = (if i = length s then [i] else [])"
| "matchAt (OpCharClass ranges) s i =
     (if i < length s \<and> inClass ranges (s ! i) then [Suc i] else [])"
| "matchAt (OpConcat a b) s i = concat (map (matchAt b s) (matchAt a s i))"
| "matchAt (OpStar a) s i = star (length s - i) (matchAt a s) i"

definition MatchString :: "Regexp \<Rightarrow> string \<Rightarrow> bool" where
  "MatchString re s = list_ex (\<lambda>i. matchAt re s i \<noteq> []) [0..<Suc (length s)]"

text \<open>The Perl class \<^verbatim>\<open>\w\<close> of Go's syntax: \<^verbatim>\<open>[0-9A-Za-z_]\<close>.\<close>

definition perl_w :: "(char \<times> char) list" where
  "perl_w =
     [(CHR ''0'', CHR ''9''), (CHR ''A'', CHR ''Z''), (CHR ''_'', CHR ''_''),
      (CHR ''a'', CHR ''z'')]"

subsection \<open>Expression\<close>

text \<open>
  The interface is used for one method, \<^verbatim>\<open>SerializeSql(d Dialect, out *bytes.Buffer) error\<close>.
  An implementation is given the dialect and the buffer and returns its error and the
  buffer as it leaves it. Nothing is assumed of it: it may fail after writing, and it may
  do to the buffer whatever \<^verbatim>\<open>*bytes.Buffer\<close> allows. A nil interface value is \<open>None\<close>.
\<close>

type_synonym Expression = "Dialect \<Rightarrow> Buffer \<Rightarrow> error option \<times> Buffer"

subsection \<open>Table\<close>

text \<open>
  A table is used for one method, \<^verbatim>\<open>getColumn(name string) (NonAliasColumn, error)\<close>. The
  columns it returns are objects held by reference, so the result is the address of a
  column, or the error. A table is itself held by pointer.
\<close>

type_synonym colref = nat
type_synonym tableref = nat

record Table =
  getColumn :: "string \<Rightarrow> error + colref"

section \<open>column.go\<close>

subsection \<open>The identifier validator\<close>

text \<open>
  \<^verbatim>\<open>var validIdentifierRegexp = regexp.MustCompile("^[a-zA-Z_]\\w*$")\<close>
\<close>

definition validIdentifierRegexp :: Regexp where
  "validIdentifierRegexp =
     OpConcat OpBeginText
       (OpConcat
         (OpCharClass [(CHR ''a'', CHR ''z''), (CHR ''A'', CHR ''Z''), (CHR ''_'', CHR ''_'')])
         (OpConcat (OpStar (OpCharClass perl_w)) OpEndText))"

definition validIdentifierName :: "string \<Rightarrow> bool" where
  "validIdentifierName nm = MatchString validIdentifierRegexp nm"

text \<open>
  The pattern as the specification writes it, \<^verbatim>\<open>^[A-Za-z_][A-Za-z0-9_]*$\<close>, and the
  characters it names, listed one by one.
\<close>

definition specIdentifierRegexp :: Regexp where
  "specIdentifierRegexp =
     OpConcat OpBeginText
       (OpConcat
         (OpCharClass [(CHR ''A'', CHR ''Z''), (CHR ''a'', CHR ''z''), (CHR ''_'', CHR ''_'')])
         (OpConcat
           (OpStar (OpCharClass
             [(CHR ''A'', CHR ''Z''), (CHR ''a'', CHR ''z''), (CHR ''0'', CHR ''9''),
              (CHR ''_'', CHR ''_'')]))
           OpEndText))"

definition asciiLetter :: "char \<Rightarrow> bool" where
  "asciiLetter c =
     (c \<in> set ''ABCDEFGHIJKLMNOPQRSTUVWXYZabcdefghijklmnopqrstuvwxyz'')"

definition asciiDigit :: "char \<Rightarrow> bool" where
  "asciiDigit c = (c \<in> set ''0123456789'')"

definition identStart :: "char \<Rightarrow> bool" where
  "identStart c = (asciiLetter c \<or> c = CHR ''_'')"

definition identPart :: "char \<Rightarrow> bool" where
  "identPart c = (asciiLetter c \<or> asciiDigit c \<or> c = CHR ''_'')"

subsection \<open>Types and constants\<close>

type_synonym NullableColumn = bool

definition Nullable :: NullableColumn where
  "Nullable = True"

definition NotNullable :: NullableColumn where
  "NotNullable = False"

type_synonym Collation = string

definition UTF8CaseInsensitive :: Collation where
  "UTF8CaseInsensitive = ''utf8_unicode_ci''"

definition UTF8CaseSensitive :: Collation where
  "UTF8CaseSensitive = ''utf8_unicode''"

definition UTF8Binary :: Collation where
  "UTF8Binary = ''utf8_bin''"

type_synonym Charset = string

definition UTF8 :: Charset where
  "UTF8 = ''utf8''"

text \<open>
  The structs. The embedded marker structs \<^verbatim>\<open>isProjection\<close> and \<^verbatim>\<open>isExpression\<close> have
  no fields and are left out. A struct that embeds \<^verbatim>\<open>baseColumn\<close> extends the record, and
  the methods of \<^verbatim>\<open>baseColumn\<close> are defined on every extension, as Go promotes them.
\<close>

record baseColumn =
  name :: string
  nullable :: NullableColumn
  table :: string

type_synonym bytesColumn = baseColumn

record stringColumn = baseColumn +
  charset :: Charset
  collation :: Collation

type_synonym dateTimeColumn = baseColumn
type_synonym integerColumn = baseColumn
type_synonym doubleColumn = baseColumn
type_synonym booleanColumn = baseColumn

record aliasColumn = baseColumn +
  expression :: "Expression option"

text \<open>
  The field \<^verbatim>\<open>table *Table\<close> of the deferred lookup column is \<open>tablePtr\<close> here, since
  \<open>table\<close> is the qualifier of \<^verbatim>\<open>baseColumn\<close>. A nil \<^verbatim>\<open>cachedColumn\<close> is \<open>None\<close>.
\<close>

record deferredLookupColumn =
  tablePtr :: tableref
  colName :: string
  cachedColumn :: "colref option"

text \<open>
  The six kinds of column that the factories of column.go build, by the type of the
  column.
\<close>

datatype NonAliasColumn =
    BytesC bytesColumn
  | StringC stringColumn
  | DateTimeC dateTimeColumn
  | IntegerC integerColumn
  | DoubleC doubleColumn
  | BooleanC booleanColumn

text \<open>
  The value behind a \<^verbatim>\<open>NonAliasColumn\<close> interface that a table hands out and a deferred
  lookup column caches. The interface is open: the value is one of the six typed
  columns, or a value of any other type that has the methods, a
  \<^verbatim>\<open>*deferredLookupColumn\<close> of column.go among them. Such a value is given by its
  \<^verbatim>\<open>SerializeSql\<close> method, which is the \<^verbatim>\<open>SerializeSql\<close> of an \<^verbatim>\<open>Expression\<close>: it may
  fail, and it may leave the buffer as it chooses. A call of it that does not return, or
  that writes the fields of the column that calls it, is not modelled.
\<close>

datatype ColumnObject =
    TypedColumn NonAliasColumn
  | OtherColumn Expression

text \<open>
  What a pointer of column.go can point to: the column objects that tables hand out,
  and the tables.
\<close>

record Heap =
  columns :: "colref \<Rightarrow> ColumnObject"
  tables :: "tableref \<Rightarrow> Table"

subsection \<open>baseColumn\<close>

text \<open>
  A method with a pointer receiver that the source lets write to the receiver returns
  the receiver with the error; a serialization returns the error and the buffer.
\<close>

definition baseColumn_Name :: "'a baseColumn_scheme \<Rightarrow> string" where
  "baseColumn_Name c = name c"

definition baseColumn_setTableName ::
  "'a baseColumn_scheme \<Rightarrow> string \<Rightarrow> error option \<times> 'a baseColumn_scheme" where
  "baseColumn_setTableName c tbl = (None, c\<lparr>table := tbl\<rparr>)"

definition baseColumn_SerializeSqlForColumnList ::
  "'a baseColumn_scheme \<Rightarrow> bool \<Rightarrow> Dialect \<Rightarrow> Buffer \<Rightarrow> error option \<times> Buffer" where
  "baseColumn_SerializeSqlForColumnList c includeTableName d out =
     (let out1 =
        (if table c \<noteq> '''' \<and> includeTableName then
           (let t1 = WriteRune out (EscapeCharacter d);
                t2 = WriteString t1 (table c);
                t3 = WriteRune t2 (EscapeCharacter d)
            in WriteByte t3 CHR ''.'')
         else out);
          out2 = WriteRune out1 (EscapeCharacter d);
          out3 = WriteString out2 (name c);
          out4 = WriteRune out3 (EscapeCharacter d)
      in (None, out4))"

definition baseColumn_SerializeSql ::
  "'a baseColumn_scheme \<Rightarrow> Dialect \<Rightarrow> Buffer \<Rightarrow> error option \<times> Buffer" where
  "baseColumn_SerializeSql c d out = baseColumn_SerializeSqlForColumnList c True d out"

subsection \<open>The typed columns\<close>

text \<open>
  \<^verbatim>\<open>bc := &bytesColumn{}\<close> is the zero value: empty strings and \<^verbatim>\<open>false\<close>. A factory
  returns the column, or panics with a message.
\<close>

definition zero_baseColumn :: baseColumn where
  "zero_baseColumn = \<lparr>name = '''', nullable = False, table = ''''\<rparr>"

definition BytesColumn :: "string \<Rightarrow> NullableColumn \<Rightarrow> panic + NonAliasColumn" where
  "BytesColumn nm nl =
     (if \<not> validIdentifierName nm then Inl (Panic ''Invalid column name in bytes column'')
      else
        (let bc = zero_baseColumn;
             bc1 = bc\<lparr>name := nm\<rparr>;
             bc2 = bc1\<lparr>nullable := nl\<rparr>
         in Inr (BytesC bc2)))"

definition StrColumn ::
  "string \<Rightarrow> Charset \<Rightarrow> Collation \<Rightarrow> NullableColumn \<Rightarrow> panic + NonAliasColumn" where
  "StrColumn nm cs co nl =
     (if \<not> validIdentifierName nm then Inl (Panic ''Invalid column name in str column'')
      else
        (let sc = \<lparr>name = '''', nullable = False, table = '''', charset = cs, collation = co\<rparr>;
             sc1 = sc\<lparr>name := nm\<rparr>;
             sc2 = sc1\<lparr>nullable := nl\<rparr>
         in Inr (StringC sc2)))"

definition DateTimeColumn :: "string \<Rightarrow> NullableColumn \<Rightarrow> panic + NonAliasColumn" where
  "DateTimeColumn nm nl =
     (if \<not> validIdentifierName nm then Inl (Panic ''Invalid column name in datetime column'')
      else
        (let dc = zero_baseColumn;
             dc1 = dc\<lparr>name := nm\<rparr>;
             dc2 = dc1\<lparr>nullable := nl\<rparr>
         in Inr (DateTimeC dc2)))"

definition IntColumn :: "string \<Rightarrow> NullableColumn \<Rightarrow> panic + NonAliasColumn" where
  "IntColumn nm nl =
     (if \<not> validIdentifierName nm then Inl (Panic ''Invalid column name in int column'')
      else
        (let ic = zero_baseColumn;
             ic1 = ic\<lparr>name := nm\<rparr>;
             ic2 = ic1\<lparr>nullable := nl\<rparr>
         in Inr (IntegerC ic2)))"

definition DoubleColumn :: "string \<Rightarrow> NullableColumn \<Rightarrow> panic + NonAliasColumn" where
  "DoubleColumn nm nl =
     (if \<not> validIdentifierName nm then Inl (Panic ''Invalid column name in int column'')
      else
        (let ic = zero_baseColumn;
             ic1 = ic\<lparr>name := nm\<rparr>;
             ic2 = ic1\<lparr>nullable := nl\<rparr>
         in Inr (DoubleC ic2)))"

definition BoolColumn :: "string \<Rightarrow> NullableColumn \<Rightarrow> panic + NonAliasColumn" where
  "BoolColumn nm nl =
     (if \<not> validIdentifierName nm then Inl (Panic ''Invalid column name in bool column'')
      else
        (let bc = zero_baseColumn;
             bc1 = bc\<lparr>name := nm\<rparr>;
             bc2 = bc1\<lparr>nullable := nl\<rparr>
         in Inr (BooleanC bc2)))"

text \<open>
  A method call on a \<^verbatim>\<open>NonAliasColumn\<close> runs the method of the column behind it; for
  all six kinds that is the promoted method of the embedded \<^verbatim>\<open>baseColumn\<close>.
  \<open>embedded\<close> reads the embedded \<^verbatim>\<open>baseColumn\<close> of a column.
\<close>

fun embedded :: "NonAliasColumn \<Rightarrow> baseColumn" where
  "embedded (BytesC c) = c"
| "embedded (StringC c) = \<lparr>name = name c, nullable = nullable c, table = table c\<rparr>"
| "embedded (DateTimeC c) = c"
| "embedded (IntegerC c) = c"
| "embedded (DoubleC c) = c"
| "embedded (BooleanC c) = c"

fun NonAliasColumn_Name :: "NonAliasColumn \<Rightarrow> string" where
  "NonAliasColumn_Name (BytesC c) = baseColumn_Name c"
| "NonAliasColumn_Name (StringC c) = baseColumn_Name c"
| "NonAliasColumn_Name (DateTimeC c) = baseColumn_Name c"
| "NonAliasColumn_Name (IntegerC c) = baseColumn_Name c"
| "NonAliasColumn_Name (DoubleC c) = baseColumn_Name c"
| "NonAliasColumn_Name (BooleanC c) = baseColumn_Name c"

fun NonAliasColumn_setTableName ::
  "NonAliasColumn \<Rightarrow> string \<Rightarrow> error option \<times> NonAliasColumn" where
  "NonAliasColumn_setTableName (BytesC c) tbl = map_prod id BytesC (baseColumn_setTableName c tbl)"
| "NonAliasColumn_setTableName (StringC c) tbl = map_prod id StringC (baseColumn_setTableName c tbl)"
| "NonAliasColumn_setTableName (DateTimeC c) tbl =
     map_prod id DateTimeC (baseColumn_setTableName c tbl)"
| "NonAliasColumn_setTableName (IntegerC c) tbl =
     map_prod id IntegerC (baseColumn_setTableName c tbl)"
| "NonAliasColumn_setTableName (DoubleC c) tbl = map_prod id DoubleC (baseColumn_setTableName c tbl)"
| "NonAliasColumn_setTableName (BooleanC c) tbl =
     map_prod id BooleanC (baseColumn_setTableName c tbl)"

fun NonAliasColumn_SerializeSqlForColumnList ::
  "NonAliasColumn \<Rightarrow> bool \<Rightarrow> Dialect \<Rightarrow> Buffer \<Rightarrow> error option \<times> Buffer" where
  "NonAliasColumn_SerializeSqlForColumnList (BytesC c) incl d out =
     baseColumn_SerializeSqlForColumnList c incl d out"
| "NonAliasColumn_SerializeSqlForColumnList (StringC c) incl d out =
     baseColumn_SerializeSqlForColumnList c incl d out"
| "NonAliasColumn_SerializeSqlForColumnList (DateTimeC c) incl d out =
     baseColumn_SerializeSqlForColumnList c incl d out"
| "NonAliasColumn_SerializeSqlForColumnList (IntegerC c) incl d out =
     baseColumn_SerializeSqlForColumnList c incl d out"
| "NonAliasColumn_SerializeSqlForColumnList (DoubleC c) incl d out =
     baseColumn_SerializeSqlForColumnList c incl d out"
| "NonAliasColumn_SerializeSqlForColumnList (BooleanC c) incl d out =
     baseColumn_SerializeSqlForColumnList c incl d out"

fun NonAliasColumn_SerializeSql ::
  "NonAliasColumn \<Rightarrow> Dialect \<Rightarrow> Buffer \<Rightarrow> error option \<times> Buffer" where
  "NonAliasColumn_SerializeSql (BytesC c) d out = baseColumn_SerializeSql c d out"
| "NonAliasColumn_SerializeSql (StringC c) d out = baseColumn_SerializeSql c d out"
| "NonAliasColumn_SerializeSql (DateTimeC c) d out = baseColumn_SerializeSql c d out"
| "NonAliasColumn_SerializeSql (IntegerC c) d out = baseColumn_SerializeSql c d out"
| "NonAliasColumn_SerializeSql (DoubleC c) d out = baseColumn_SerializeSql c d out"
| "NonAliasColumn_SerializeSql (BooleanC c) d out = baseColumn_SerializeSql c d out"

subsection \<open>aliasColumn\<close>

definition aliasColumn_SerializeSql ::
  "aliasColumn \<Rightarrow> Dialect \<Rightarrow> Buffer \<Rightarrow> error option \<times> Buffer" where
  "aliasColumn_SerializeSql c d out =
     (let out1 = WriteRune out (EscapeCharacter d);
          out2 = WriteString out1 (name c);
          out3 = WriteRune out2 (EscapeCharacter d)
      in (None, out3))"

text \<open>
  \<^verbatim>\<open>fmt.Errorf\<close> with \<^verbatim>\<open>%s\<close> verbs and string arguments puts the arguments in place
  of the verbs. The second test of \<^verbatim>\<open>c.expression == nil\<close>, after the parenthesis is
  written, is kept as the source has it.
\<close>

definition aliasColumn_SerializeSqlForColumnList ::
  "aliasColumn \<Rightarrow> bool \<Rightarrow> Dialect \<Rightarrow> Buffer \<Rightarrow> error option \<times> Buffer" where
  "aliasColumn_SerializeSqlForColumnList c includeTableName d out =
     (if \<not> validIdentifierName (name c) then
        (Some (errorString (''invalid alias name `'' @ name c @ ''`. Generated sql: '' @ out)), out)
      else if expression c = None then
        (Some (errorString (''cannot alias a nil expression. Generated sql: '' @ out)), out)
      else
        (let out1 = WriteByte out CHR ''(''
         in case expression c of
              None \<Rightarrow> (Some (errorString (''nil alias clause. Generate sql: '' @ out1)), out1)
            | Some e \<Rightarrow>
                (case e d out1 of
                   (Some err, out2) \<Rightarrow> (Some err, out2)
                 | (None, out2) \<Rightarrow>
                     (let out3 = WriteString out2 '') AS '';
                          out4 = WriteRune out3 (EscapeCharacter d);
                          out5 = WriteString out4 (name c);
                          out6 = WriteRune out5 (EscapeCharacter d)
                      in (None, out6)))))"

definition aliasColumn_setTableName ::
  "aliasColumn \<Rightarrow> string \<Rightarrow> error option \<times> aliasColumn" where
  "aliasColumn_setTableName c tbl =
     (Some (errorString (''alias column '' @ [CHR 0x27] @ name c @ [CHR 0x27]
        @ '' should never have setTableName called on it'')), c)"

definition Alias :: "string \<Rightarrow> Expression option \<Rightarrow> aliasColumn" where
  "Alias nm e =
     (let ac = \<lparr>name = '''', nullable = False, table = '''', expression = None\<rparr>;
          ac1 = ac\<lparr>name := nm\<rparr>;
          ac2 = ac1\<lparr>expression := e\<rparr>
      in ac2)"

subsection \<open>deferredLookupColumn\<close>

text \<open>
  The interface call \<^verbatim>\<open>col.SerializeSql(d, out)\<close> on the value behind a
  \<^verbatim>\<open>NonAliasColumn\<close> runs the method of that value.
\<close>

fun ColumnObject_SerializeSql ::
  "ColumnObject \<Rightarrow> Dialect \<Rightarrow> Buffer \<Rightarrow> error option \<times> Buffer" where
  "ColumnObject_SerializeSql (TypedColumn col) d out = NonAliasColumn_SerializeSql col d out"
| "ColumnObject_SerializeSql (OtherColumn m) d out = m d out"

text \<open>
  \<^verbatim>\<open>SerializeSql\<close> reads the heap (the table behind \<^verbatim>\<open>c.table\<close>, the column behind the
  cached or the looked-up reference) and may write \<^verbatim>\<open>c.cachedColumn\<close>. It returns the
  error, the receiver, the buffer, and the calls of \<^verbatim>\<open>c.table.getColumn\<close> that it made
  itself, each as the table and the name asked for.
\<close>

definition deferredLookupColumn_Name :: "deferredLookupColumn \<Rightarrow> string" where
  "deferredLookupColumn_Name c = colName c"

definition deferredLookupColumn_SerializeSql ::
  "Heap \<Rightarrow> deferredLookupColumn \<Rightarrow> Dialect \<Rightarrow> Buffer
   \<Rightarrow> error option \<times> deferredLookupColumn \<times> Buffer \<times> (tableref \<times> string) list" where
  "deferredLookupColumn_SerializeSql h c d out =
     (case cachedColumn c of
        Some cached \<Rightarrow>
          (case ColumnObject_SerializeSql (columns h cached) d out of
             (err, out1) \<Rightarrow> (err, c, out1, []))
      | None \<Rightarrow>
          (case getColumn (tables h (tablePtr c)) (colName c) of
             Inl err \<Rightarrow> (Some err, c, out, [(tablePtr c, colName c)])
           | Inr col \<Rightarrow>
               (let c1 = c\<lparr>cachedColumn := Some col\<rparr>
                in case ColumnObject_SerializeSql (columns h col) d out of
                     (err, out1) \<Rightarrow> (err, c1, out1, [(tablePtr c, colName c)]))))"

definition deferredLookupColumn_SerializeSqlForColumnList ::
  "Heap \<Rightarrow> deferredLookupColumn \<Rightarrow> bool \<Rightarrow> Dialect \<Rightarrow> Buffer
   \<Rightarrow> error option \<times> deferredLookupColumn \<times> Buffer \<times> (tableref \<times> string) list" where
  "deferredLookupColumn_SerializeSqlForColumnList h c includeTableName d out =
     deferredLookupColumn_SerializeSql h c d out"

definition deferredLookupColumn_setTableName ::
  "deferredLookupColumn \<Rightarrow> string \<Rightarrow> error option \<times> deferredLookupColumn" where
  "deferredLookupColumn_setTableName c tbl =
     (Some (errorString (''lookup column '' @ [CHR 0x27] @ colName c @ [CHR 0x27]
        @ '' should never have setTableName called on it'')), c)"

text \<open>
  A deferred lookup column, in the heap it is in, as the value behind an interface: its
  \<^verbatim>\<open>SerializeSql\<close> method.
\<close>

definition deferredLookupColumn_method :: "Heap \<Rightarrow> deferredLookupColumn \<Rightarrow> Expression" where
  "deferredLookupColumn_method h c =
     (\<lambda>d out. case deferredLookupColumn_SerializeSql h c d out of
        (err, c1, out1, calls) \<Rightarrow> (err, out1))"

subsection \<open>A caller\<close>

text \<open>
  A caller that serializes one deferred lookup column several times, each time through
  \<^verbatim>\<open>SerializeSql\<close> or through \<^verbatim>\<open>SerializeSqlForColumnList\<close>, with the heap as it is
  then, a dialect and a buffer. It returns the column as the last call leaves it, and the
  calls of \<^verbatim>\<open>getColumn\<close> that the column made, in order.
\<close>

datatype entry = ViaSerializeSql | ViaSerializeSqlForColumnList bool

fun serializeEach ::
  "deferredLookupColumn \<Rightarrow> (entry \<times> Heap \<times> Dialect \<times> Buffer) list
   \<Rightarrow> deferredLookupColumn \<times> (tableref \<times> string) list" where
  "serializeEach c [] = (c, [])"
| "serializeEach c ((how, h, d, out) # rest) =
     (case (case how of
              ViaSerializeSql \<Rightarrow> deferredLookupColumn_SerializeSql h c d out
            | ViaSerializeSqlForColumnList includeTableName \<Rightarrow>
                deferredLookupColumn_SerializeSqlForColumnList h c includeTableName d out) of
        (err, c1, out1, calls) \<Rightarrow>
          (case serializeEach c1 rest of (c2, calls2) \<Rightarrow> (c2, calls @ calls2)))"

section \<open>The identifier validator, proved\<close>

lemma star_steps_reach_end:
  assumes f: "\<And>j. f j = (if j < length s \<and> P (s ! j) then [Suc j] else [])"
  shows "i \<le> length s \<Longrightarrow> length s - i \<le> n \<Longrightarrow>
         (length s \<in> set (star n f i)) = list_all P (drop i s)"
proof (induction n arbitrary: i)
  case 0
  then show ?case by simp
next
  case (Suc n)
  show ?case
  proof (cases "i = length s")
    case True
    then show ?thesis by simp
  next
    case False
    with Suc.prems have lt: "i < length s" by simp
    then have d: "drop i s = s ! i # drop (Suc i) s"
      by (simp add: Cons_nth_drop_Suc)
    from lt Suc.prems have "Suc i \<le> length s" and "length s - Suc i \<le> n"
      by simp_all
    then have ih: "(length s \<in> set (star n f (Suc i))) = list_all P (drop (Suc i) s)"
      by (rule Suc.IH)
    have fi: "f i = (if P (s ! i) then [Suc i] else [])"
      using lt by (simp add: f)
    show ?thesis
      using lt False ih by (simp add: d fi)
  qed
qed

lemma star_class_reaches_end:
  "i \<le> length s \<Longrightarrow> length s - i \<le> n \<Longrightarrow>
   (length s \<in> set (star n (matchAt (OpCharClass B) s) i)) = list_all (inClass B) (drop i s)"
  by (rule star_steps_reach_end) simp_all

lemma anchored_class_star_iff:
  "MatchString
     (OpConcat OpBeginText (OpConcat (OpCharClass A) (OpConcat (OpStar (OpCharClass B)) OpEndText))) s
   = (\<exists>c cs. s = c # cs \<and> inClass A c \<and> list_all (inClass B) cs)"
proof (cases s)
  case Nil
  then show ?thesis by (simp add: MatchString_def)
next
  case (Cons c cs)
  have tail: "(length s \<in> set (star (length s - 1) (matchAt (OpCharClass B) s) 1))
              = list_all (inClass B) cs"
    using star_class_reaches_end [of 1 s "length s - 1" B] Cons by simp
  have at0: "(matchAt (OpConcat (OpCharClass A) (OpConcat (OpStar (OpCharClass B)) OpEndText)) s 0 \<noteq> [])
             = (inClass A c \<and> list_all (inClass B) cs)"
    using tail Cons by auto
  have "MatchString
     (OpConcat OpBeginText (OpConcat (OpCharClass A) (OpConcat (OpStar (OpCharClass B)) OpEndText))) s
     = (matchAt (OpConcat (OpCharClass A) (OpConcat (OpStar (OpCharClass B)) OpEndText)) s 0 \<noteq> [])"
    unfolding MatchString_def list_ex_iff by auto
  with at0 Cons show ?thesis by simp
qed

lemma source_start_class:
  "inClass [(CHR ''a'', CHR ''z''), (CHR ''A'', CHR ''Z''), (CHR ''_'', CHR ''_'')] c = identStart c"
  by (cases c)
     (simp add: inClass_def identStart_def asciiLetter_def less_eq_char_def)

lemma source_part_class: "inClass perl_w c = identPart c"
  by (cases c)
     (simp add: inClass_def perl_w_def identPart_def asciiLetter_def asciiDigit_def
        less_eq_char_def)

lemma spec_start_class:
  "inClass [(CHR ''A'', CHR ''Z''), (CHR ''a'', CHR ''z''), (CHR ''_'', CHR ''_'')] c = identStart c"
  by (cases c)
     (simp add: inClass_def identStart_def asciiLetter_def less_eq_char_def)

lemma spec_part_class:
  "inClass [(CHR ''A'', CHR ''Z''), (CHR ''a'', CHR ''z''), (CHR ''0'', CHR ''9''),
            (CHR ''_'', CHR ''_'')] c = identPart c"
  by (cases c)
     (simp add: inClass_def identPart_def asciiLetter_def asciiDigit_def less_eq_char_def)

lemma validIdentifierName_chars:
  "validIdentifierName s = (\<exists>c cs. s = c # cs \<and> identStart c \<and> list_all identPart cs)"
proof -
  have "list_all (inClass perl_w) = list_all identPart"
    by (rule arg_cong [where f = list_all]) (rule ext, rule source_part_class)
  then show ?thesis
    unfolding validIdentifierName_def validIdentifierRegexp_def anchored_class_star_iff
    by (simp add: source_start_class)
qed

lemma specIdentifierRegexp_chars:
  "MatchString specIdentifierRegexp s
   = (\<exists>c cs. s = c # cs \<and> identStart c \<and> list_all identPart cs)"
proof -
  have "list_all (inClass [(CHR ''A'', CHR ''Z''), (CHR ''a'', CHR ''z''), (CHR ''0'', CHR ''9''),
            (CHR ''_'', CHR ''_'')]) = list_all identPart"
    by (rule arg_cong [where f = list_all]) (rule ext, rule spec_part_class)
  then show ?thesis
    unfolding specIdentifierRegexp_def anchored_class_star_iff
    by (simp add: spec_start_class)
qed

text \<open>
  C6. \<^verbatim>\<open>validIdentifierName(s)\<close> is true exactly when \<open>s\<close> matches the specification's
  pattern \<^verbatim>\<open>^[A-Za-z_][A-Za-z0-9_]*$\<close>, that is, when \<open>s\<close> is an ASCII letter or an
  underscore followed by ASCII letters, digits and underscores only. It is false for the
  empty string, for a string that starts with a digit, and for a string with a character
  outside \<^verbatim>\<open>[A-Za-z0-9_]\<close>.
\<close>

theorem validIdentifierName_iff_spec_pattern:
  "(validIdentifierName s = MatchString specIdentifierRegexp s)
   \<and> (validIdentifierName s
        = (\<exists>c cs. s = c # cs \<and> identStart c \<and> list_all identPart cs))
   \<and> \<not> validIdentifierName []
   \<and> (asciiDigit c \<longrightarrow> \<not> validIdentifierName (c # cs))
   \<and> ((\<exists>x \<in> set s. \<not> identPart x) \<longrightarrow> \<not> validIdentifierName s)"
proof -
  have same: "validIdentifierName s = MatchString specIdentifierRegexp s"
    by (simp add: validIdentifierName_chars specIdentifierRegexp_chars)
  have empty: "\<not> validIdentifierName []"
    by (simp add: validIdentifierName_chars)
  have digit: "asciiDigit c \<longrightarrow> \<not> validIdentifierName (c # cs)"
    by (auto simp: validIdentifierName_chars asciiDigit_def identStart_def asciiLetter_def)
  have start_part: "\<And>x. identStart x \<Longrightarrow> identPart x"
    by (auto simp: identStart_def identPart_def)
  have outside: "(\<exists>x \<in> set s. \<not> identPart x) \<longrightarrow> \<not> validIdentifierName s"
    unfolding validIdentifierName_chars
    by (auto simp: list_all_iff dest: start_part)
  from same validIdentifierName_chars [of s] empty digit outside show ?thesis
    by blast
qed

theorem validIdentifierName_iff_spec_pattern_witness:
  "validIdentifierName ''user_id2''
   \<and> MatchString specIdentifierRegexp ''user_id2''
   \<and> asciiDigit CHR ''2'' \<and> \<not> validIdentifierName ''2fast''
   \<and> \<not> identPart CHR ''-'' \<and> \<not> validIdentifierName ''a-b''"
proof -
  note good = validIdentifierName_iff_spec_pattern [of "''user_id2''" "CHR ''2''" "''fast''"]
  note bad = validIdentifierName_iff_spec_pattern [of "''a-b''" "CHR ''2''" "''fast''"]
  have digit: "asciiDigit CHR ''2''"
    by (simp add: asciiDigit_def)
  have dash: "\<not> identPart CHR ''-''"
    by (simp add: identPart_def asciiLetter_def asciiDigit_def)
  from good [THEN conjunct2, THEN conjunct1] have valid: "validIdentifierName ''user_id2''"
    by (simp add: identStart_def identPart_def asciiLetter_def asciiDigit_def)
  with good [THEN conjunct1] have spec: "MatchString specIdentifierRegexp ''user_id2''"
    by simp
  from good digit have two: "\<not> validIdentifierName ''2fast''"
    by blast
  from bad dash have three: "\<not> validIdentifierName ''a-b''"
    by auto
  from valid spec digit two dash three show ?thesis
    by simp
qed

section \<open>The typed columns, proved\<close>

lemmas buffer_writes = WriteByte_def WriteString_def WriteRune_def esc_def

lemmas factory_defs = BytesColumn_def StrColumn_def DateTimeColumn_def IntColumn_def
  DoubleColumn_def BoolColumn_def zero_baseColumn_def baseColumn_Name_def

lemma EncodeRune_backtick: "EncodeRune 0x60 = ''`''"
  by code_simp

lemma baseColumn_SerializeSqlForColumnList_eq:
  "baseColumn_SerializeSqlForColumnList c includeTableName d out =
     (None,
      if table c \<noteq> '''' \<and> includeTableName
      then out @ esc d @ table c @ esc d @ ''.'' @ esc d @ name c @ esc d
      else out @ esc d @ name c @ esc d)"
  by (simp add: baseColumn_SerializeSqlForColumnList_def buffer_writes)

lemma NonAliasColumn_SerializeSqlForColumnList_eq:
  "NonAliasColumn_SerializeSqlForColumnList col includeTableName d out =
     (None,
      if table (embedded col) \<noteq> '''' \<and> includeTableName
      then out @ esc d @ table (embedded col) @ esc d @ ''.'' @ esc d @ name (embedded col) @ esc d
      else out @ esc d @ name (embedded col) @ esc d)"
  by (cases col) (simp_all add: baseColumn_SerializeSqlForColumnList_eq)

lemma NonAliasColumn_SerializeSql_succeeds:
  "fst (NonAliasColumn_SerializeSql col d out) = None"
  by (cases col)
     (simp_all add: baseColumn_SerializeSql_def baseColumn_SerializeSqlForColumnList_eq)

lemma StrColumn_Inr:
  "StrColumn nm cs co nl = Inr c \<Longrightarrow>
   c = StringC \<lparr>name = nm, nullable = nl, table = '''', charset = cs, collation = co\<rparr>"
  by (auto simp: StrColumn_def split: if_splits)

text \<open>
  C3. For a column that embeds \<^verbatim>\<open>baseColumn\<close>, and so for each of the six typed columns
  behind a \<^verbatim>\<open>NonAliasColumn\<close>, \<^verbatim>\<open>SerializeSqlForColumnList(includeTableName, d, buf)\<close>
  returns nil and appends the escaped table, a dot and the escaped name when the table is
  not empty and \<^verbatim>\<open>includeTableName\<close> is true, and the escaped name alone otherwise; with
  \<^verbatim>\<open>includeTableName\<close> false the table is never written. The name is written as it is
  stored: nothing is asked of it.
\<close>

theorem typed_column_SerializeSqlForColumnList:
  "baseColumn_SerializeSqlForColumnList c includeTableName d out =
     (None,
      if table c \<noteq> '''' \<and> includeTableName
      then out @ esc d @ table c @ esc d @ ''.'' @ esc d @ name c @ esc d
      else out @ esc d @ name c @ esc d)
   \<and> NonAliasColumn_SerializeSqlForColumnList col includeTableName d out =
     (None,
      if table (embedded col) \<noteq> '''' \<and> includeTableName
      then out @ esc d @ table (embedded col) @ esc d @ ''.'' @ esc d @ name (embedded col) @ esc d
      else out @ esc d @ name (embedded col) @ esc d)
   \<and> NonAliasColumn_SerializeSqlForColumnList col False d out =
     (None, out @ esc d @ name (embedded col) @ esc d)"
  by (simp add: baseColumn_SerializeSqlForColumnList_eq NonAliasColumn_SerializeSqlForColumnList_eq)

theorem typed_column_SerializeSqlForColumnList_witness:
  "NonAliasColumn_SerializeSqlForColumnList
     (IntegerC \<lparr>name = ''id'', nullable = False, table = ''users''\<rparr>) True
     \<lparr>EscapeCharacter = 0x60\<rparr> ''SELECT '' = (None, ''SELECT `users`.`id`'')
   \<and> NonAliasColumn_SerializeSqlForColumnList
     (IntegerC \<lparr>name = ''id'', nullable = False, table = ''users''\<rparr>) False
     \<lparr>EscapeCharacter = 0x60\<rparr> ''SELECT '' = (None, ''SELECT `id`'')
   \<and> baseColumn_SerializeSqlForColumnList
     \<lparr>name = ''not valid'', nullable = False, table = ''''\<rparr> True
     \<lparr>EscapeCharacter = 0x60\<rparr> [] = (None, ''`not valid`'')"
  using typed_column_SerializeSqlForColumnList
      [where c = "\<lparr>name = ''not valid'', nullable = False, table = ''''\<rparr>"
         and includeTableName = True and d = "\<lparr>EscapeCharacter = 0x60\<rparr>" and out = "[]"
         and col = "IntegerC \<lparr>name = ''id'', nullable = False, table = ''users''\<rparr>"]
    typed_column_SerializeSqlForColumnList
      [where c = "\<lparr>name = ''not valid'', nullable = False, table = ''''\<rparr>"
         and includeTableName = True and d = "\<lparr>EscapeCharacter = 0x60\<rparr>"
         and out = "''SELECT ''"
         and col = "IntegerC \<lparr>name = ''id'', nullable = False, table = ''users''\<rparr>"]
  by (simp add: esc_def EncodeRune_backtick)

text \<open>
  C5. Each of \<^verbatim>\<open>BytesColumn\<close>, \<^verbatim>\<open>StrColumn\<close>, \<^verbatim>\<open>DateTimeColumn\<close>, \<^verbatim>\<open>IntColumn\<close>,
  \<^verbatim>\<open>DoubleColumn\<close> and \<^verbatim>\<open>BoolColumn\<close> panics exactly when \<^verbatim>\<open>validIdentifierName\<close> rejects
  the name. When the name is valid, each returns a column whose \<^verbatim>\<open>Name()\<close> is the given
  name, whose nullable flag is the given one and whose table is the empty string.
\<close>

theorem typed_column_factories:
  "((\<exists>p. BytesColumn nm nl = Inl p) = (\<not> validIdentifierName nm))
   \<and> ((\<exists>p. StrColumn nm cs co nl = Inl p) = (\<not> validIdentifierName nm))
   \<and> ((\<exists>p. DateTimeColumn nm nl = Inl p) = (\<not> validIdentifierName nm))
   \<and> ((\<exists>p. IntColumn nm nl = Inl p) = (\<not> validIdentifierName nm))
   \<and> ((\<exists>p. DoubleColumn nm nl = Inl p) = (\<not> validIdentifierName nm))
   \<and> ((\<exists>p. BoolColumn nm nl = Inl p) = (\<not> validIdentifierName nm))
   \<and> (validIdentifierName nm \<longrightarrow>
        (\<forall>r \<in> {BytesColumn nm nl, StrColumn nm cs co nl, DateTimeColumn nm nl,
                 IntColumn nm nl, DoubleColumn nm nl, BoolColumn nm nl}.
           \<exists>c. r = Inr c \<and> NonAliasColumn_Name c = nm \<and> nullable (embedded c) = nl
                \<and> table (embedded c) = ''''))"
  by (simp add: factory_defs)

theorem typed_column_factories_witness:
  "validIdentifierName ''id'' \<and> \<not> validIdentifierName ''9lives''
   \<and> IntColumn ''id'' NotNullable = Inr (IntegerC \<lparr>name = ''id'', nullable = False, table = ''''\<rparr>)
   \<and> StrColumn ''id'' UTF8 UTF8Binary Nullable
       = Inr (StringC \<lparr>name = ''id'', nullable = True, table = '''', charset = ''utf8'',
                       collation = ''utf8_bin''\<rparr>)
   \<and> (\<exists>p. DoubleColumn ''9lives'' Nullable = Inl p)"
proof -
  have good: "validIdentifierName ''id''"
    by (simp add: validIdentifierName_chars identStart_def identPart_def asciiLetter_def)
  have bad: "\<not> validIdentifierName ''9lives''"
    by (simp add: validIdentifierName_chars identStart_def asciiLetter_def)
  from bad typed_column_factories [of "''9lives''" Nullable UTF8 UTF8Binary]
  have "\<exists>p. DoubleColumn ''9lives'' Nullable = Inl p"
    by blast
  moreover from good typed_column_factories [of "''id''" NotNullable UTF8 UTF8Binary]
  have "\<exists>c. IntColumn ''id'' NotNullable = Inr c \<and> NonAliasColumn_Name c = ''id''"
    by blast
  ultimately show ?thesis
    using good bad
    by (simp add: factory_defs NotNullable_def Nullable_def UTF8_def UTF8Binary_def)
qed

text \<open>
  C9. Two columns built by \<^verbatim>\<open>StrColumn\<close> from the same name and nullability, with any
  two charsets and any two collations, serialize alike: \<^verbatim>\<open>SerializeSql\<close> and
  \<^verbatim>\<open>SerializeSqlForColumnList\<close> return the same buffer and a nil error for both, as
  built and after \<^verbatim>\<open>setTableName\<close> with the same table.
\<close>

theorem charset_collation_not_serialized:
  assumes "StrColumn nm cs1 co1 nl = Inr c1" and "StrColumn nm cs2 co2 nl = Inr c2"
  shows "NonAliasColumn_SerializeSql c1 d out = NonAliasColumn_SerializeSql c2 d out
   \<and> fst (NonAliasColumn_SerializeSql c1 d out) = None
   \<and> NonAliasColumn_SerializeSqlForColumnList c1 incl d out
       = NonAliasColumn_SerializeSqlForColumnList c2 incl d out
   \<and> fst (NonAliasColumn_SerializeSqlForColumnList c1 incl d out) = None
   \<and> NonAliasColumn_SerializeSql (snd (NonAliasColumn_setTableName c1 tbl)) d out
       = NonAliasColumn_SerializeSql (snd (NonAliasColumn_setTableName c2 tbl)) d out
   \<and> fst (NonAliasColumn_SerializeSql (snd (NonAliasColumn_setTableName c1 tbl)) d out) = None
   \<and> NonAliasColumn_SerializeSqlForColumnList (snd (NonAliasColumn_setTableName c1 tbl)) incl d out
       = NonAliasColumn_SerializeSqlForColumnList (snd (NonAliasColumn_setTableName c2 tbl)) incl d out
   \<and> fst (NonAliasColumn_SerializeSqlForColumnList (snd (NonAliasColumn_setTableName c1 tbl))
            incl d out) = None"
  using StrColumn_Inr [OF assms(1)] StrColumn_Inr [OF assms(2)]
  by (simp add: baseColumn_SerializeSql_def baseColumn_SerializeSqlForColumnList_def
      baseColumn_setTableName_def)

theorem charset_collation_not_serialized_witness:
  "StrColumn ''title'' ''utf8'' ''utf8_bin'' True
     = Inr (StringC \<lparr>name = ''title'', nullable = True, table = '''', charset = ''utf8'',
                     collation = ''utf8_bin''\<rparr>)
   \<and> StrColumn ''title'' ''latin1'' ''latin1_swedish_ci'' True
     = Inr (StringC \<lparr>name = ''title'', nullable = True, table = '''', charset = ''latin1'',
                     collation = ''latin1_swedish_ci''\<rparr>)
   \<and> NonAliasColumn_SerializeSql
       (snd (NonAliasColumn_setTableName
         (StringC \<lparr>name = ''title'', nullable = True, table = '''', charset = ''utf8'',
                   collation = ''utf8_bin''\<rparr>) ''books''))
       \<lparr>EscapeCharacter = 0x60\<rparr> []
     = NonAliasColumn_SerializeSql
       (snd (NonAliasColumn_setTableName
         (StringC \<lparr>name = ''title'', nullable = True, table = '''', charset = ''latin1'',
                   collation = ''latin1_swedish_ci''\<rparr>) ''books''))
       \<lparr>EscapeCharacter = 0x60\<rparr> []
   \<and> NonAliasColumn_SerializeSql
       (snd (NonAliasColumn_setTableName
         (StringC \<lparr>name = ''title'', nullable = True, table = '''', charset = ''latin1'',
                   collation = ''latin1_swedish_ci''\<rparr>) ''books''))
       \<lparr>EscapeCharacter = 0x60\<rparr> []
     = (None, ''`books`.`title`'')"
proof -
  let ?c1 = "StringC \<lparr>name = ''title'', nullable = True, table = '''', charset = ''utf8'',
                     collation = ''utf8_bin''\<rparr>"
  let ?c2 = "StringC \<lparr>name = ''title'', nullable = True, table = '''', charset = ''latin1'',
                     collation = ''latin1_swedish_ci''\<rparr>"
  have good: "validIdentifierName ''title''"
    by (simp add: validIdentifierName_chars identStart_def identPart_def asciiLetter_def)
  have 1: "StrColumn ''title'' ''utf8'' ''utf8_bin'' True = Inr ?c1"
    using good by (simp add: StrColumn_def)
  have 2: "StrColumn ''title'' ''latin1'' ''latin1_swedish_ci'' True = Inr ?c2"
    using good by (simp add: StrColumn_def)
  note same = charset_collation_not_serialized
    [OF 1 2, where d = "\<lparr>EscapeCharacter = 0x60\<rparr>" and out = "[]" and tbl = "''books''"
       and incl = True]
  have 3: "NonAliasColumn_SerializeSql (snd (NonAliasColumn_setTableName ?c2 ''books''))
       \<lparr>EscapeCharacter = 0x60\<rparr> [] = (None, ''`books`.`title`'')"
    by (simp add: baseColumn_setTableName_def baseColumn_SerializeSql_def
        baseColumn_SerializeSqlForColumnList_eq esc_def EncodeRune_backtick)
  from 1 2 3 same show ?thesis
    by simp
qed

section \<open>The alias column, proved\<close>

text \<open>
  C8. \<^verbatim>\<open>aliasColumn.SerializeSql\<close> returns nil and appends the escaped name and nothing
  else, for every alias column: nothing is asked of the name or of the expression, so the
  same holds for \<^verbatim>\<open>Alias(name, e)\<close> with any name and any expression, nil or not.
\<close>

theorem aliasColumn_SerializeSql_name_only:
  "aliasColumn_SerializeSql c d out = (None, out @ esc d @ name c @ esc d)
   \<and> aliasColumn_SerializeSql (Alias nm e) d out = (None, out @ esc d @ nm @ esc d)"
  by (simp add: aliasColumn_SerializeSql_def Alias_def buffer_writes)

theorem aliasColumn_SerializeSql_name_only_witness:
  "\<not> validIdentifierName ''no good''
   \<and> aliasColumn_SerializeSql (Alias ''no good'' None) \<lparr>EscapeCharacter = 0x60\<rparr> ''x = ''
       = (None, ''x = `no good`'')"
proof -
  have "\<not> validIdentifierName ''no good''"
    by (simp add: validIdentifierName_chars identStart_def identPart_def asciiLetter_def
        asciiDigit_def)
  then show ?thesis
    using aliasColumn_SerializeSql_name_only
      [where c = "Alias ''no good'' None" and d = "\<lparr>EscapeCharacter = 0x60\<rparr>"
         and out = "''x = ''" and nm = "''no good''" and e = None]
    by (simp add: esc_def EncodeRune_backtick Alias_def)
qed

text \<open>
  C4. \<^verbatim>\<open>aliasColumn.SerializeSqlForColumnList\<close>, in this order: if the name is not a
  valid identifier it returns the error \<^verbatim>\<open>invalid alias name `NAME`. Generated sql: BUF\<close>
  and leaves the buffer alone; otherwise, if the expression is nil, it returns the error
  \<^verbatim>\<open>cannot alias a nil expression. Generated sql: BUF\<close>, which is never equal to the
  first, and leaves the buffer alone; otherwise it writes \<^verbatim>\<open>(\<close> and calls the
  expression's \<^verbatim>\<open>SerializeSql\<close>, returns its error if it has one, and else appends
  \<^verbatim>\<open>) AS\<close>, a space and the escaped name, and returns nil.
\<close>

theorem aliasColumn_SerializeSqlForColumnList_steps:
  "(\<not> validIdentifierName (name c) \<longrightarrow>
      aliasColumn_SerializeSqlForColumnList c incl d out
        = (Some (errorString (''invalid alias name `'' @ name c @ ''`. Generated sql: '' @ out)),
           out))
   \<and> (validIdentifierName (name c) \<and> expression c = None \<longrightarrow>
      aliasColumn_SerializeSqlForColumnList c incl d out
        = (Some (errorString (''cannot alias a nil expression. Generated sql: '' @ out)), out))
   \<and> errorString (''invalid alias name `'' @ nm @ ''`. Generated sql: '' @ out)
       \<noteq> errorString (''cannot alias a nil expression. Generated sql: '' @ out')
   \<and> (validIdentifierName (name c) \<and> expression c = Some e
        \<and> e d (out @ ''('') = (Some err, out2) \<longrightarrow>
      aliasColumn_SerializeSqlForColumnList c incl d out = (Some err, out2))
   \<and> (validIdentifierName (name c) \<and> expression c = Some e
        \<and> e d (out @ ''('') = (None, out2) \<longrightarrow>
      aliasColumn_SerializeSqlForColumnList c incl d out
        = (None, out2 @ '') AS '' @ esc d @ name c @ esc d))"
  by (simp add: aliasColumn_SerializeSqlForColumnList_def buffer_writes)

theorem aliasColumn_SerializeSqlForColumnList_steps_witness:
  "\<not> validIdentifierName ''''
   \<and> aliasColumn_SerializeSqlForColumnList
        (Alias '''' (Some (\<lambda>d out. (None, out @ ''a + b'')))) True
        \<lparr>EscapeCharacter = 0x60\<rparr> ''SELECT ''
       = (Some (errorString ''invalid alias name ``. Generated sql: SELECT ''), ''SELECT '')
   \<and> validIdentifierName ''total''
   \<and> aliasColumn_SerializeSqlForColumnList (Alias ''total'' None) True
        \<lparr>EscapeCharacter = 0x60\<rparr> ''SELECT ''
       = (Some (errorString ''cannot alias a nil expression. Generated sql: SELECT ''), ''SELECT '')
   \<and> aliasColumn_SerializeSqlForColumnList
        (Alias ''total'' (Some (\<lambda>d out. (Some (errorString ''boom''), out @ ''a +'')))) True
        \<lparr>EscapeCharacter = 0x60\<rparr> ''SELECT ''
       = (Some (errorString ''boom''), ''SELECT (a +'')
   \<and> aliasColumn_SerializeSqlForColumnList
        (Alias ''total'' (Some (\<lambda>d out. (None, out @ ''a + b'')))) True
        \<lparr>EscapeCharacter = 0x60\<rparr> ''SELECT ''
       = (None, ''SELECT (a + b) AS `total`'')"
proof -
  let ?d = "\<lparr>EscapeCharacter = 0x60\<rparr>"
  let ?ok = "\<lambda>(d :: Dialect) (out :: Buffer). (None :: error option, out @ ''a + b'')"
  let ?boom = "\<lambda>(d :: Dialect) (out :: Buffer). (Some (errorString ''boom''), out @ ''a +'')"
  have bad: "\<not> validIdentifierName ''''"
    by (simp add: validIdentifierName_chars)
  have good: "validIdentifierName ''total''"
    by (simp add: validIdentifierName_chars identStart_def identPart_def asciiLetter_def)
  have 1: "aliasColumn_SerializeSqlForColumnList (Alias '''' (Some ?ok)) True ?d ''SELECT ''
       = (Some (errorString ''invalid alias name ``. Generated sql: SELECT ''), ''SELECT '')"
    using bad aliasColumn_SerializeSqlForColumnList_steps
      [where c = "Alias '''' (Some ?ok)" and incl = True and d = ?d and out = "''SELECT ''"]
    by (simp add: Alias_def)
  have 2: "aliasColumn_SerializeSqlForColumnList (Alias ''total'' None) True ?d ''SELECT ''
       = (Some (errorString ''cannot alias a nil expression. Generated sql: SELECT ''), ''SELECT '')"
    using good aliasColumn_SerializeSqlForColumnList_steps
      [where c = "Alias ''total'' None" and incl = True and d = ?d and out = "''SELECT ''"]
    by (simp add: Alias_def)
  have 3: "aliasColumn_SerializeSqlForColumnList (Alias ''total'' (Some ?boom)) True ?d ''SELECT ''
       = (Some (errorString ''boom''), ''SELECT (a +'')"
    using good aliasColumn_SerializeSqlForColumnList_steps
      [where c = "Alias ''total'' (Some ?boom)" and incl = True and d = ?d
         and out = "''SELECT ''" and e = ?boom and err = "errorString ''boom''"
         and ?out2.0 = "''SELECT (a +''"]
    by (simp add: Alias_def)
  have 4: "aliasColumn_SerializeSqlForColumnList (Alias ''total'' (Some ?ok)) True ?d ''SELECT ''
       = (None, ''SELECT (a + b) AS `total`'')"
    using good aliasColumn_SerializeSqlForColumnList_steps
      [where c = "Alias ''total'' (Some ?ok)" and incl = True and d = ?d
         and out = "''SELECT ''" and e = ?ok and ?out2.0 = "''SELECT (a + b''"]
    by (simp add: Alias_def esc_def EncodeRune_backtick)
  from bad good 1 2 3 4 show ?thesis
    by simp
qed

text \<open>
  C10. For an alias column with a valid name and an expression that is not nil, if the
  expression's \<^verbatim>\<open>SerializeSql\<close> returns an error, \<^verbatim>\<open>SerializeSqlForColumnList\<close> returns
  that error and the buffer is the one the expression left, having been given the buffer
  with the parenthesis appended. So when the expression has only appended, the buffer
  holds the old contents, the parenthesis and what the expression wrote, and differs from
  the buffer before the call.
\<close>

theorem aliasColumn_error_keeps_partial_output:
  assumes "validIdentifierName (name c)" and "expression c = Some e"
    and "e d (out @ ''('') = (Some err, out2)"
  shows "aliasColumn_SerializeSqlForColumnList c incl d out = (Some err, out2)
   \<and> (\<forall>partial. out2 = out @ ''('' @ partial \<longrightarrow>
        snd (aliasColumn_SerializeSqlForColumnList c incl d out) = out @ ''('' @ partial
        \<and> snd (aliasColumn_SerializeSqlForColumnList c incl d out) \<noteq> out)"
  using assms
  by (simp add: aliasColumn_SerializeSqlForColumnList_def buffer_writes)

theorem aliasColumn_error_keeps_partial_output_witness:
  "validIdentifierName ''total''
   \<and> aliasColumn_SerializeSqlForColumnList
        (Alias ''total'' (Some (\<lambda>d out. (Some (errorString ''boom''), out @ ''a +'')))) True
        \<lparr>EscapeCharacter = 0x60\<rparr> ''SELECT ''
       = (Some (errorString ''boom''), ''SELECT (a +'')
   \<and> ''SELECT (a +'' \<noteq> ''SELECT ''"
proof -
  let ?d = "\<lparr>EscapeCharacter = 0x60\<rparr>"
  let ?boom = "\<lambda>(d :: Dialect) (out :: Buffer). (Some (errorString ''boom''), out @ ''a +'')"
  have good: "validIdentifierName (name (Alias ''total'' (Some ?boom)))"
    by (simp add: Alias_def validIdentifierName_chars identStart_def identPart_def
        asciiLetter_def)
  have expr: "expression (Alias ''total'' (Some ?boom)) = Some ?boom"
    by (simp add: Alias_def)
  have run: "?boom ?d (''SELECT '' @ ''('') = (Some (errorString ''boom''), ''SELECT (a +'')"
    by simp
  from aliasColumn_error_keeps_partial_output [OF good expr run, of True] good
  show ?thesis
    by (simp add: Alias_def)
qed

text \<open>
  C7. \<^verbatim>\<open>setTableName\<close> of an alias column and of a deferred lookup column returns an
  error that is not nil, whatever the argument, and the receiver is as it was: the same
  name and expression, the same table pointer, column name and cached column.
\<close>

theorem setTableName_alias_and_lookup_fail:
  "(\<exists>err. aliasColumn_setTableName a tbl = (Some err, a))
   \<and> (\<exists>err. deferredLookupColumn_setTableName c tbl = (Some err, c))
   \<and> name (snd (aliasColumn_setTableName a tbl)) = name a
   \<and> expression (snd (aliasColumn_setTableName a tbl)) = expression a
   \<and> tablePtr (snd (deferredLookupColumn_setTableName c tbl)) = tablePtr c
   \<and> colName (snd (deferredLookupColumn_setTableName c tbl)) = colName c
   \<and> cachedColumn (snd (deferredLookupColumn_setTableName c tbl)) = cachedColumn c"
  by (simp add: aliasColumn_setTableName_def deferredLookupColumn_setTableName_def)

theorem setTableName_alias_and_lookup_fail_witness:
  "aliasColumn_setTableName (Alias ''total'' None) ''users''
     = (Some (errorString
          (''alias column '' @ [CHR 0x27] @ ''total'' @ [CHR 0x27]
           @ '' should never have setTableName called on it'')),
        Alias ''total'' None)
   \<and> deferredLookupColumn_setTableName
       \<lparr>tablePtr = 1, colName = ''id'', cachedColumn = Some 7\<rparr> ''users''
     = (Some (errorString
          (''lookup column '' @ [CHR 0x27] @ ''id'' @ [CHR 0x27]
           @ '' should never have setTableName called on it'')),
        \<lparr>tablePtr = 1, colName = ''id'', cachedColumn = Some 7\<rparr>)"
  using setTableName_alias_and_lookup_fail
    [where a = "Alias ''total'' None" and tbl = "''users''"
       and c = "\<lparr>tablePtr = 1, colName = ''id'', cachedColumn = Some 7\<rparr>"]
  by (simp add: aliasColumn_setTableName_def deferredLookupColumn_setTableName_def Alias_def)

section \<open>The deferred lookup column, proved\<close>

lemma ColumnList_is_SerializeSql:
  "deferredLookupColumn_SerializeSqlForColumnList h c incl d out
   = deferredLookupColumn_SerializeSql h c d out"
  by (simp add: deferredLookupColumn_SerializeSqlForColumnList_def)

lemma cached_SerializeSql:
  "cachedColumn c = Some r \<Longrightarrow>
   deferredLookupColumn_SerializeSql h c d out
     = (fst (ColumnObject_SerializeSql (columns h r) d out), c,
        snd (ColumnObject_SerializeSql (columns h r) d out), [])"
  by (simp add: deferredLookupColumn_SerializeSql_def split: prod.splits)

lemma found_SerializeSql:
  "cachedColumn c = None \<Longrightarrow> getColumn (tables h (tablePtr c)) (colName c) = Inr r \<Longrightarrow>
   deferredLookupColumn_SerializeSql h c d out
     = (fst (ColumnObject_SerializeSql (columns h r) d out), c\<lparr>cachedColumn := Some r\<rparr>,
        snd (ColumnObject_SerializeSql (columns h r) d out), [(tablePtr c, colName c)])"
  by (simp add: deferredLookupColumn_SerializeSql_def split: prod.splits)

lemma missing_SerializeSql:
  "cachedColumn c = None \<Longrightarrow> getColumn (tables h (tablePtr c)) (colName c) = Inl err \<Longrightarrow>
   deferredLookupColumn_SerializeSql h c d out = (Some err, c, out, [(tablePtr c, colName c)])"
  by (simp add: deferredLookupColumn_SerializeSql_def)

lemma cached_serializeEach:
  "cachedColumn c = Some r \<Longrightarrow> serializeEach c calls = (c, [])"
proof (induction calls)
  case Nil
  show ?case by simp
next
  case (Cons x xs)
  obtain how h d out where x: "x = (how, h, d, out)"
    by (cases x)
  from Cons show ?case
    by (cases how) (simp_all add: x ColumnList_is_SerializeSql cached_SerializeSql)
qed

lemma found_serializeEach:
  "cachedColumn c = None \<Longrightarrow> getColumn (tables h (tablePtr c)) (colName c) = Inr r \<Longrightarrow>
   serializeEach c ((how, h, d, out) # later)
     = (c\<lparr>cachedColumn := Some r\<rparr>, [(tablePtr c, colName c)])"
proof -
  assume empty: "cachedColumn c = None"
    and found: "getColumn (tables h (tablePtr c)) (colName c) = Inr r"
  have "cachedColumn (c\<lparr>cachedColumn := Some r\<rparr>) = Some r"
    by simp
  then have rest: "serializeEach (c\<lparr>cachedColumn := Some r\<rparr>) later = (c\<lparr>cachedColumn := Some r\<rparr>, [])"
    by (rule cached_serializeEach)
  show ?thesis
    by (cases how)
       (simp_all add: ColumnList_is_SerializeSql found_SerializeSql [OF empty found] rest)
qed

lemma missing_serializeEach:
  "cachedColumn c = None \<Longrightarrow> getColumn (tables h (tablePtr c)) (colName c) = Inl err \<Longrightarrow>
   serializeEach c ((how, h, d, out) # later)
     = (fst (serializeEach c later), (tablePtr c, colName c) # snd (serializeEach c later))"
proof -
  assume empty: "cachedColumn c = None"
    and missing: "getColumn (tables h (tablePtr c)) (colName c) = Inl err"
  show ?thesis
    by (cases how)
       (simp_all add: ColumnList_is_SerializeSql missing_SerializeSql [OF empty missing]
          split: prod.splits)
qed



text \<open>
  C2, in the form that holds. When the cache is empty and \<^verbatim>\<open>getColumn\<close> returns an error,
  \<^verbatim>\<open>SerializeSql\<close> (and \<^verbatim>\<open>SerializeSqlForColumnList\<close>, which is \<^verbatim>\<open>SerializeSql\<close>)
  returns that error, writes nothing and leaves the column as it was, with the cache
  empty. A later call asks the table again; if \<^verbatim>\<open>getColumn\<close> then finds a column, the
  call caches its reference and returns the error and the buffer of that column's own
  \<^verbatim>\<open>SerializeSql\<close>, so it returns nil when the column found is one of the typed columns;
  no call after it asks the table.
\<close>

theorem failed_lookup_is_not_cached:
  "deferredLookupColumn_SerializeSqlForColumnList h c incl d out
     = deferredLookupColumn_SerializeSql h c d out
   \<and> (cachedColumn c = None \<and> getColumn (tables h (tablePtr c)) (colName c) = Inl err \<longrightarrow>
     deferredLookupColumn_SerializeSql h c d out = (Some err, c, out, [(tablePtr c, colName c)])
     \<and> (getColumn (tables h2 (tablePtr c)) (colName c) = Inr r \<longrightarrow>
          deferredLookupColumn_SerializeSql h2 c d2 out2
            = (fst (ColumnObject_SerializeSql (columns h2 r) d2 out2),
               c\<lparr>cachedColumn := Some r\<rparr>,
               snd (ColumnObject_SerializeSql (columns h2 r) d2 out2),
               [(tablePtr c, colName c)])
          \<and> (\<forall>col. columns h2 r = TypedColumn col \<longrightarrow>
                deferredLookupColumn_SerializeSql h2 c d2 out2
                  = (None, c\<lparr>cachedColumn := Some r\<rparr>,
                     snd (NonAliasColumn_SerializeSql col d2 out2),
                     [(tablePtr c, colName c)]))
          \<and> serializeEach c ((how, h, d, out) # (how2, h2, d2, out2) # later)
            = (c\<lparr>cachedColumn := Some r\<rparr>, [(tablePtr c, colName c), (tablePtr c, colName c)])))"
proof -
  have delegates: "deferredLookupColumn_SerializeSqlForColumnList h c incl d out
      = deferredLookupColumn_SerializeSql h c d out"
    by (rule ColumnList_is_SerializeSql)
  have failed: "cachedColumn c = None
      \<and> getColumn (tables h (tablePtr c)) (colName c) = Inl err \<longrightarrow>
     deferredLookupColumn_SerializeSql h c d out = (Some err, c, out, [(tablePtr c, colName c)])
     \<and> (getColumn (tables h2 (tablePtr c)) (colName c) = Inr r \<longrightarrow>
          deferredLookupColumn_SerializeSql h2 c d2 out2
            = (fst (ColumnObject_SerializeSql (columns h2 r) d2 out2),
               c\<lparr>cachedColumn := Some r\<rparr>,
               snd (ColumnObject_SerializeSql (columns h2 r) d2 out2),
               [(tablePtr c, colName c)])
          \<and> (\<forall>col. columns h2 r = TypedColumn col \<longrightarrow>
                deferredLookupColumn_SerializeSql h2 c d2 out2
                  = (None, c\<lparr>cachedColumn := Some r\<rparr>,
                     snd (NonAliasColumn_SerializeSql col d2 out2),
                     [(tablePtr c, colName c)]))
          \<and> serializeEach c ((how, h, d, out) # (how2, h2, d2, out2) # later)
            = (c\<lparr>cachedColumn := Some r\<rparr>, [(tablePtr c, colName c), (tablePtr c, colName c)]))"
  proof (intro impI, elim conjE)
    assume empty: "cachedColumn c = None"
      and missing: "getColumn (tables h (tablePtr c)) (colName c) = Inl err"
    have first: "deferredLookupColumn_SerializeSql h c d out
        = (Some err, c, out, [(tablePtr c, colName c)])"
      using empty missing by (rule missing_SerializeSql)
    have retry: "getColumn (tables h2 (tablePtr c)) (colName c) = Inr r \<longrightarrow>
          deferredLookupColumn_SerializeSql h2 c d2 out2
            = (fst (ColumnObject_SerializeSql (columns h2 r) d2 out2),
               c\<lparr>cachedColumn := Some r\<rparr>,
               snd (ColumnObject_SerializeSql (columns h2 r) d2 out2),
               [(tablePtr c, colName c)])
          \<and> (\<forall>col. columns h2 r = TypedColumn col \<longrightarrow>
                deferredLookupColumn_SerializeSql h2 c d2 out2
                  = (None, c\<lparr>cachedColumn := Some r\<rparr>,
                     snd (NonAliasColumn_SerializeSql col d2 out2),
                     [(tablePtr c, colName c)]))
          \<and> serializeEach c ((how, h, d, out) # (how2, h2, d2, out2) # later)
            = (c\<lparr>cachedColumn := Some r\<rparr>, [(tablePtr c, colName c), (tablePtr c, colName c)])"
    proof
      assume found: "getColumn (tables h2 (tablePtr c)) (colName c) = Inr r"
      note call = found_SerializeSql [OF empty found, of d2 out2]
      have typed: "\<forall>col. columns h2 r = TypedColumn col \<longrightarrow>
                deferredLookupColumn_SerializeSql h2 c d2 out2
                  = (None, c\<lparr>cachedColumn := Some r\<rparr>,
                     snd (NonAliasColumn_SerializeSql col d2 out2),
                     [(tablePtr c, colName c)])"
        by (simp add: call NonAliasColumn_SerializeSql_succeeds)
      have run: "serializeEach c ((how, h, d, out) # (how2, h2, d2, out2) # later)
            = (c\<lparr>cachedColumn := Some r\<rparr>, [(tablePtr c, colName c), (tablePtr c, colName c)])"
        by (simp add: missing_serializeEach [OF empty missing]
            found_serializeEach [OF empty found] del: serializeEach.simps)
      from call typed run
      show "deferredLookupColumn_SerializeSql h2 c d2 out2
            = (fst (ColumnObject_SerializeSql (columns h2 r) d2 out2),
               c\<lparr>cachedColumn := Some r\<rparr>,
               snd (ColumnObject_SerializeSql (columns h2 r) d2 out2),
               [(tablePtr c, colName c)])
          \<and> (\<forall>col. columns h2 r = TypedColumn col \<longrightarrow>
                deferredLookupColumn_SerializeSql h2 c d2 out2
                  = (None, c\<lparr>cachedColumn := Some r\<rparr>,
                     snd (NonAliasColumn_SerializeSql col d2 out2),
                     [(tablePtr c, colName c)]))
          \<and> serializeEach c ((how, h, d, out) # (how2, h2, d2, out2) # later)
            = (c\<lparr>cachedColumn := Some r\<rparr>, [(tablePtr c, colName c), (tablePtr c, colName c)])"
        by (intro conjI)
    qed
    from first retry
    show "deferredLookupColumn_SerializeSql h c d out = (Some err, c, out, [(tablePtr c, colName c)])
     \<and> (getColumn (tables h2 (tablePtr c)) (colName c) = Inr r \<longrightarrow>
          deferredLookupColumn_SerializeSql h2 c d2 out2
            = (fst (ColumnObject_SerializeSql (columns h2 r) d2 out2),
               c\<lparr>cachedColumn := Some r\<rparr>,
               snd (ColumnObject_SerializeSql (columns h2 r) d2 out2),
               [(tablePtr c, colName c)])
          \<and> (\<forall>col. columns h2 r = TypedColumn col \<longrightarrow>
                deferredLookupColumn_SerializeSql h2 c d2 out2
                  = (None, c\<lparr>cachedColumn := Some r\<rparr>,
                     snd (NonAliasColumn_SerializeSql col d2 out2),
                     [(tablePtr c, colName c)]))
          \<and> serializeEach c ((how, h, d, out) # (how2, h2, d2, out2) # later)
            = (c\<lparr>cachedColumn := Some r\<rparr>, [(tablePtr c, colName c), (tablePtr c, colName c)]))"
      by (intro conjI)
  qed
  from delegates failed show ?thesis
    by (intro conjI)
qed

theorem failed_lookup_is_not_cached_witness:
  "deferredLookupColumn_SerializeSql
       \<lparr>columns = (\<lambda>r. TypedColumn (StringC \<lparr>name = ''email'', nullable = True,
                     table = ''users'', charset = ''utf8'', collation = ''utf8_bin''\<rparr>)),
        tables = (\<lambda>t. \<lparr>getColumn = (\<lambda>nm. Inl (errorString ''no such column''))\<rparr>)\<rparr>
       \<lparr>tablePtr = 1, colName = ''email'', cachedColumn = None\<rparr>
       \<lparr>EscapeCharacter = 0x60\<rparr> ''SELECT ''
     = (Some (errorString ''no such column''),
        \<lparr>tablePtr = 1, colName = ''email'', cachedColumn = None\<rparr>, ''SELECT '', [(1, ''email'')])
   \<and> deferredLookupColumn_SerializeSql
       \<lparr>columns = (\<lambda>r. TypedColumn (StringC \<lparr>name = ''email'', nullable = True,
                     table = ''users'', charset = ''utf8'', collation = ''utf8_bin''\<rparr>)),
        tables = (\<lambda>t. \<lparr>getColumn = (\<lambda>nm. Inr 3)\<rparr>)\<rparr>
       \<lparr>tablePtr = 1, colName = ''email'', cachedColumn = None\<rparr>
       \<lparr>EscapeCharacter = 0x60\<rparr> ''SELECT ''
     = (None, \<lparr>tablePtr = 1, colName = ''email'', cachedColumn = Some 3\<rparr>,
        ''SELECT `users`.`email`'', [(1, ''email'')])
   \<and> serializeEach \<lparr>tablePtr = 1, colName = ''email'', cachedColumn = None\<rparr>
     [(ViaSerializeSql,
       \<lparr>columns = (\<lambda>r. TypedColumn (StringC \<lparr>name = ''email'', nullable = True,
                     table = ''users'', charset = ''utf8'', collation = ''utf8_bin''\<rparr>)),
        tables = (\<lambda>t. \<lparr>getColumn = (\<lambda>nm. Inl (errorString ''no such column''))\<rparr>)\<rparr>,
       \<lparr>EscapeCharacter = 0x60\<rparr>, ''SELECT ''),
      (ViaSerializeSql,
       \<lparr>columns = (\<lambda>r. TypedColumn (StringC \<lparr>name = ''email'', nullable = True,
                     table = ''users'', charset = ''utf8'', collation = ''utf8_bin''\<rparr>)),
        tables = (\<lambda>t. \<lparr>getColumn = (\<lambda>nm. Inr 3)\<rparr>)\<rparr>,
       \<lparr>EscapeCharacter = 0x60\<rparr>, ''SELECT '')]
     = (\<lparr>tablePtr = 1, colName = ''email'', cachedColumn = Some 3\<rparr>,
        [(1, ''email''), (1, ''email'')])"
proof -
  let ?col = "StringC \<lparr>name = ''email'', nullable = True, table = ''users'',
                       charset = ''utf8'', collation = ''utf8_bin''\<rparr>"
  let ?h = "\<lparr>columns = (\<lambda>r. TypedColumn ?col),
        tables = (\<lambda>t. \<lparr>getColumn = (\<lambda>nm. Inl (errorString ''no such column''))\<rparr>)\<rparr>"
  let ?h2 = "\<lparr>columns = (\<lambda>r. TypedColumn ?col),
        tables = (\<lambda>t. \<lparr>getColumn = (\<lambda>nm. Inr 3)\<rparr>)\<rparr>"
  let ?d = "\<lparr>EscapeCharacter = 0x60\<rparr>"
  let ?c = "\<lparr>tablePtr = 1, colName = ''email'', cachedColumn = None\<rparr>"
  have missing: "cachedColumn ?c = None
      \<and> getColumn (tables ?h (tablePtr ?c)) (colName ?c) = Inl (errorString ''no such column'')"
    by simp
  have found: "getColumn (tables ?h2 (tablePtr ?c)) (colName ?c) = Inr 3"
    by simp
  have typed: "columns ?h2 3 = TypedColumn ?col"
    by simp
  note all = failed_lookup_is_not_cached
      [where c = ?c and h = ?h and err = "errorString ''no such column''" and d = ?d
         and out = "''SELECT ''" and incl = True and ?h2.0 = ?h2 and r = 3 and ?d2.0 = ?d
         and ?out2.0 = "''SELECT ''" and later = "[]" and how = ViaSerializeSql
         and ?how2.0 = ViaSerializeSql,
       THEN conjunct2, THEN mp, OF missing]
  note retry = all [THEN conjunct2, THEN mp, OF found]
  have 1: "deferredLookupColumn_SerializeSql ?h ?c ?d ''SELECT ''
      = (Some (errorString ''no such column''), ?c, ''SELECT '', [(1, ''email'')])"
    using all [THEN conjunct1] by simp
  have 2: "deferredLookupColumn_SerializeSql ?h2 ?c ?d ''SELECT ''
      = (None, \<lparr>tablePtr = 1, colName = ''email'', cachedColumn = Some 3\<rparr>,
         ''SELECT `users`.`email`'', [(1, ''email'')])"
    using retry [THEN conjunct2, THEN conjunct1, THEN spec, THEN mp, OF typed]
    by (simp add: baseColumn_SerializeSql_def baseColumn_SerializeSqlForColumnList_def
        buffer_writes EncodeRune_backtick)
  have 3: "serializeEach ?c [(ViaSerializeSql, ?h, ?d, ''SELECT ''), (ViaSerializeSql, ?h2, ?d, ''SELECT '')]
      = (\<lparr>tablePtr = 1, colName = ''email'', cachedColumn = Some 3\<rparr>,
         [(1, ''email''), (1, ''email'')])"
    using retry [THEN conjunct2, THEN conjunct2] by simp
  from 1 2 3 show ?thesis
    by (intro conjI)
qed

text \<open>
  C2 as the specification has it promises more: that the later call succeeds whenever
  its lookup does. A table can hand out a column whose own serialization fails, and then
  the later call fails with that column's error, having cached the column. Here the
  first lookup of \<^verbatim>\<open>owner\<close> in table 1 fails. At the later call table 1 returns a
  reference to another deferred lookup column, for the column \<^verbatim>\<open>id\<close> of table 2, and
  table 2 has no such column.
\<close>

theorem retry_lookup_found_but_serialization_fails:
  "deferredLookupColumn_SerializeSql
       \<lparr>columns = (\<lambda>r. TypedColumn (IntegerC \<lparr>name = ''n'', nullable = False, table = ''''\<rparr>)),
        tables = (\<lambda>t. \<lparr>getColumn = (\<lambda>nm. Inl (errorString ''no such column''))\<rparr>)\<rparr>
       \<lparr>tablePtr = 1, colName = ''owner'', cachedColumn = None\<rparr>
       \<lparr>EscapeCharacter = 0x60\<rparr> ''SELECT ''
     = (Some (errorString ''no such column''),
        \<lparr>tablePtr = 1, colName = ''owner'', cachedColumn = None\<rparr>, ''SELECT '',
        [(1, ''owner'')])
   \<and> getColumn (tables
       \<lparr>columns = (\<lambda>r. OtherColumn (deferredLookupColumn_method
          \<lparr>columns = (\<lambda>r. TypedColumn (IntegerC \<lparr>name = ''n'', nullable = False, table = ''''\<rparr>)),
           tables = (\<lambda>t. if t = 1 then \<lparr>getColumn = (\<lambda>nm. Inr 5)\<rparr>
                        else \<lparr>getColumn = (\<lambda>nm. Inl (errorString ''no such column id''))\<rparr>)\<rparr>
          \<lparr>tablePtr = 2, colName = ''id'', cachedColumn = None\<rparr>)),
        tables = (\<lambda>t. if t = 1 then \<lparr>getColumn = (\<lambda>nm. Inr 5)\<rparr>
                     else \<lparr>getColumn = (\<lambda>nm. Inl (errorString ''no such column id''))\<rparr>)\<rparr> 1)
       ''owner'' = Inr 5
   \<and> deferredLookupColumn_SerializeSql
       \<lparr>columns = (\<lambda>r. OtherColumn (deferredLookupColumn_method
          \<lparr>columns = (\<lambda>r. TypedColumn (IntegerC \<lparr>name = ''n'', nullable = False, table = ''''\<rparr>)),
           tables = (\<lambda>t. if t = 1 then \<lparr>getColumn = (\<lambda>nm. Inr 5)\<rparr>
                        else \<lparr>getColumn = (\<lambda>nm. Inl (errorString ''no such column id''))\<rparr>)\<rparr>
          \<lparr>tablePtr = 2, colName = ''id'', cachedColumn = None\<rparr>)),
        tables = (\<lambda>t. if t = 1 then \<lparr>getColumn = (\<lambda>nm. Inr 5)\<rparr>
                     else \<lparr>getColumn = (\<lambda>nm. Inl (errorString ''no such column id''))\<rparr>)\<rparr>
       \<lparr>tablePtr = 1, colName = ''owner'', cachedColumn = None\<rparr>
       \<lparr>EscapeCharacter = 0x60\<rparr> ''SELECT ''
     = (Some (errorString ''no such column id''),
        \<lparr>tablePtr = 1, colName = ''owner'', cachedColumn = Some 5\<rparr>, ''SELECT '',
        [(1, ''owner'')])"
  by (simp add: deferredLookupColumn_SerializeSql_def deferredLookupColumn_method_def)

end
